theory Spec2Isabelle
  imports Main
begin

section \<open>Tensors and the library operations used by the Embedding module\<close>

text \<open>
  The notebook defines one class, \<open>Embedding(nn.Module)\<close>, with a constructor and a
  \<open>forward\<close> method. Everything else it calls is library code: the pretrained
  tokenizer and encoder, \<open>nn.Embedding\<close>, \<open>nn.LayerNorm\<close> and tensor addition.

  A tensor is a nested list, outermost dimension first: a batch of token ids is
  \<open>int list list\<close> (\<open>[batch, seq_len]\<close>), a batch of hidden vectors is
  \<open>'a list list list\<close> (\<open>[batch, seq_len, width]\<close>). The scalar type \<open>'a\<close> stands
  for the floating-point numbers of the program; only its addition is used, and no law
  of arithmetic is assumed of it. A dimension of size zero is the empty list at its
  level, so the sizes below it are not recorded.

  Every exception is a value: a result is \<open>error + 'a\<close>, with \<open>Inl\<close> the exception.
\<close>

datatype error = IndexError | RuntimeError | ValueError

text \<open>The first exception of a list of results, or all the values.\<close>

fun collect :: "(error + 'a) list \<Rightarrow> error + 'a list" where
  "collect [] = Inr []"
| "collect (r # rs) =
     (case r of
        Inl e \<Rightarrow> Inl e
      | Inr v \<Rightarrow> (case collect rs of Inl e \<Rightarrow> Inl e | Inr vs \<Rightarrow> Inr (v # vs)))"

text \<open>
  \<open>tokens.size(1)\<close>: the size of the second dimension. A tensor without rows has
  no second dimension on record, and asking for it raises.
\<close>

definition size_1 :: "'a list list \<Rightarrow> error + nat" where
  "size_1 t = (case t of [] \<Rightarrow> Inl IndexError | row # _ \<Rightarrow> Inr (length row))"

text \<open>\<open>torch.arange(seq_len, dtype=torch.long)\<close>: the integers \<open>0, ..., seq_len - 1\<close>.\<close>

definition arange :: "nat \<Rightarrow> int list" where
  "arange n = map int [0..<n]"

text \<open>\<open>pos.unsqueeze(0)\<close>: a new outermost dimension of size one.\<close>

definition unsqueeze_0 :: "'a list \<Rightarrow> 'a list list" where
  "unsqueeze_0 v = [v]"

text \<open>
  \<open>t.expand_as(other)\<close> for a \<open>t\<close> whose first dimension has size one: the single
  row is repeated once per row of \<open>other\<close>. In \<open>forward\<close> the row has \<open>tokens.size(1)\<close>
  entries, so the second dimension already agrees.
\<close>

definition expand_as :: "'a list list \<Rightarrow> 'b list list \<Rightarrow> 'a list list" where
  "expand_as t other = (case t of [row] \<Rightarrow> replicate (length other) row | _ \<Rightarrow> t)"

text \<open>\<open>torch.zeros_like(tokens)\<close>: the same shape, every entry zero.\<close>

definition zeros_like :: "int list list \<Rightarrow> int list list" where
  "zeros_like t = map (map (\<lambda>_. 0)) t"

text \<open>
  Calling an \<open>nn.Embedding\<close> on a tensor of indices: every index must be a row number
  of the weight matrix, otherwise the lookup raises \<open>IndexError\<close> (\<open>RuntimeError\<close> when
  the weight matrix has no row at all); the result has one row of the weight matrix
  per index.
\<close>

definition embedding :: "'a list list \<Rightarrow> int list list \<Rightarrow> error + 'a list list list" where
  "embedding weight input =
     (if list_all (list_all (\<lambda>i. 0 \<le> i \<and> i < int (length weight))) input
      then Inr (map (map (\<lambda>i. weight ! nat i)) input)
      else if weight = [] then Inl RuntimeError
      else Inl IndexError)"

text \<open>
  Tensor addition broadcasts: along each dimension the two sizes are equal, or one of
  them is one and its single entry is used throughout; anything else raises
  \<open>RuntimeError\<close>.
\<close>

definition broadcast ::
  "('a \<Rightarrow> 'b \<Rightarrow> error + 'c) \<Rightarrow> 'a list \<Rightarrow> 'b list \<Rightarrow> error + 'c list" where
  "broadcast f xs ys =
     (if length xs = length ys then collect (map (\<lambda>(x, y). f x y) (zip xs ys))
      else if length xs = 1 then collect (map (f (hd xs)) ys)
      else if length ys = 1 then collect (map (\<lambda>x. f x (hd ys)) xs)
      else Inl RuntimeError)"

definition tensor_add ::
  "'a::plus list list list \<Rightarrow> 'a list list list \<Rightarrow> error + 'a list list list" where
  "tensor_add = broadcast (broadcast (broadcast (\<lambda>a b. Inr (a + b))))"

text \<open>
  \<open>nn.LayerNorm(normalized_shape)\<close> normalises every innermost vector on its own and
  raises \<open>RuntimeError\<close> when the innermost size is not \<open>normalized_shape\<close>. Its
  arithmetic (mean, variance, epsilon, scale and shift, in floating point) is the
  parameter \<open>transform\<close>: \<open>transform v k\<close> is component \<open>k\<close> of the normalised \<open>v\<close>.
\<close>

record 'a LayerNorm =
  normalized_shape :: nat
  transform :: "'a list \<Rightarrow> nat \<Rightarrow> 'a"

definition normalize :: "'a LayerNorm \<Rightarrow> 'a list \<Rightarrow> 'a list" where
  "normalize ln v = map (transform ln v) [0..<length v]"

definition layer_norm :: "'a LayerNorm \<Rightarrow> 'a list list list \<Rightarrow> error + 'a list list list" where
  "layer_norm ln t =
     (if list_all (list_all (\<lambda>v. length v = normalized_shape ln)) t
      then Inr (map (map (normalize ln)) t)
      else Inl RuntimeError)"

section \<open>The Embedding module\<close>

text \<open>
  The fields that \<open>__init__\<close> sets. The tokenizer and the encoder are the pretrained
  \<open>bert-base-uncased\<close> objects; they are not code of the notebook and are parameters,
  of a type that is left open here.
\<close>

record ('tok, 'enc, 'a) Embedding_fields =
  tokenizer :: 'tok
  bert_model :: 'enc
  d_model :: nat
  pos_embed :: "'a list list"
  seg_embed :: "'a list list"
  norm :: "'a LayerNorm"

text \<open>
  In the first model of the two objects each is the function that a call of it
  computes: \<open>tokenizer self x n\<close> is \<open>self.tokenizer(x, return_tensors='pt',
  padding='max_length', truncation=True, max_length=n)['input_ids']\<close> and
  \<open>bert_model self tokens\<close> is \<open>self.bert_model(tokens)[0]\<close>. Both may raise. This is
  the model for what one call of \<open>forward\<close> computes. Section \<open>The pretrained objects
  with state of their own\<close> gives them state that a call can read and change, for
  what a call leaves behind and for two calls in a row.
\<close>

type_synonym 'a Embedding =
  "(string list \<Rightarrow> nat \<Rightarrow> error + int list list,
    int list list \<Rightarrow> error + 'a list list list, 'a) Embedding_fields"

text \<open>
  What the constructor draws from outside: the two pretrained objects, the initial
  entries of the two weight matrices (\<open>nn.Embedding\<close> fills them at random) and the
  arithmetic of the normalisation.
\<close>

record ('tok, 'enc, 'a) resources_fields =
  pretrained_tokenizer :: 'tok
  pretrained_model :: 'enc
  pos_weight :: "nat \<Rightarrow> nat \<Rightarrow> 'a"
  seg_weight :: "nat \<Rightarrow> nat \<Rightarrow> 'a"
  norm_transform :: "'a list \<Rightarrow> nat \<Rightarrow> 'a"

type_synonym 'a resources =
  "(string list \<Rightarrow> nat \<Rightarrow> error + int list list,
    int list list \<Rightarrow> error + 'a list list list, 'a) resources_fields"

text \<open>\<open>nn.Embedding(num_embeddings, embedding_dim)\<close>: a weight matrix of that shape.\<close>

definition nn_Embedding :: "(nat \<Rightarrow> nat \<Rightarrow> 'a) \<Rightarrow> nat \<Rightarrow> nat \<Rightarrow> 'a list list" where
  "nn_Embedding w num_embeddings embedding_dim =
     map (\<lambda>i. map (w i) [0..<embedding_dim]) [0..<num_embeddings]"

definition nn_LayerNorm :: "('a list \<Rightarrow> nat \<Rightarrow> 'a) \<Rightarrow> nat \<Rightarrow> 'a LayerNorm" where
  "nn_LayerNorm f n = \<lparr>normalized_shape = n, transform = f\<rparr>"

text \<open>\<open>Embedding.__init__(self, vocab_size, maxlen, d_model)\<close>.\<close>

definition Embedding_init ::
  "('tok, 'enc, 'a) resources_fields \<Rightarrow> nat \<Rightarrow> nat \<Rightarrow> nat \<Rightarrow>
   ('tok, 'enc, 'a) Embedding_fields" where
  "Embedding_init res vocab_size maxlen dm =
     \<lparr>tokenizer = pretrained_tokenizer res,
      bert_model = pretrained_model res,
      d_model = dm,
      pos_embed = nn_Embedding (pos_weight res) maxlen dm,
      seg_embed = nn_Embedding (seg_weight res) 2 dm,
      norm = nn_LayerNorm (norm_transform res) dm\<rparr>"

text \<open>
  \<open>Embedding.forward(self, x)\<close>, statement by statement. The result is returned
  together with the module as the call leaves it; the method assigns to no field of
  \<open>self\<close>, on the paths that raise as on the one that returns. In the sum, Python
  evaluates
  \<open>(token_embeddings + self.pos_embed(pos)) + self.seg_embed(segments)\<close> from left to
  right, so the position lookup comes before the first addition and the segment lookup
  after it.
\<close>

definition forward ::
  "string list \<Rightarrow> 'a::plus Embedding \<Rightarrow> (error + 'a list list list) \<times> 'a Embedding" where
  "forward x self =
     (case tokenizer self x (d_model self) of
        Inl e \<Rightarrow> (Inl e, self)
      | Inr tokens \<Rightarrow>
     (case size_1 tokens of
        Inl e \<Rightarrow> (Inl e, self)
      | Inr seq_len \<Rightarrow>
     (let pos = arange seq_len;
          pos = expand_as (unsqueeze_0 pos) tokens;
          segments = zeros_like tokens
      in
     (case bert_model self tokens of
        Inl e \<Rightarrow> (Inl e, self)
      | Inr token_embeddings \<Rightarrow>
     (case embedding (pos_embed self) pos of
        Inl e \<Rightarrow> (Inl e, self)
      | Inr position_embeddings \<Rightarrow>
     (case tensor_add token_embeddings position_embeddings of
        Inl e \<Rightarrow> (Inl e, self)
      | Inr partial_sum \<Rightarrow>
     (case embedding (seg_embed self) segments of
        Inl e \<Rightarrow> (Inl e, self)
      | Inr segment_embeddings \<Rightarrow>
     (case tensor_add partial_sum segment_embeddings of
        Inl e \<Rightarrow> (Inl e, self)
      | Inr embedding_sum \<Rightarrow> (layer_norm (norm self) embedding_sum, self)))))))))"

text \<open>
  Two parts of \<open>forward\<close> under names of their own, so that its local variables can be
  spoken of: \<open>forward_ids\<close> is the method up to \<open>segments = torch.zeros_like(tokens)\<close>
  and returns \<open>tokens\<close>, \<open>pos\<close> and \<open>segments\<close>; \<open>forward_sum\<close> is the encoder call and
  the sum of the three embeddings. Lemma \<open>forward_by_parts\<close> below shows that
  \<open>forward\<close> is the two in sequence, followed by the normalisation.
\<close>

definition forward_ids ::
  "string list \<Rightarrow> 'a Embedding \<Rightarrow> error + int list list \<times> int list list \<times> int list list" where
  "forward_ids x self =
     (case tokenizer self x (d_model self) of
        Inl e \<Rightarrow> Inl e
      | Inr tokens \<Rightarrow>
     (case size_1 tokens of
        Inl e \<Rightarrow> Inl e
      | Inr seq_len \<Rightarrow>
     (let pos = arange seq_len;
          pos = expand_as (unsqueeze_0 pos) tokens;
          segments = zeros_like tokens
      in Inr (tokens, pos, segments))))"

definition forward_sum ::
  "'a::plus Embedding \<Rightarrow> int list list \<times> int list list \<times> int list list \<Rightarrow>
   error + 'a list list list" where
  "forward_sum self ids =
     (case ids of (tokens, pos, segments) \<Rightarrow>
     (case bert_model self tokens of
        Inl e \<Rightarrow> Inl e
      | Inr token_embeddings \<Rightarrow>
     (case embedding (pos_embed self) pos of
        Inl e \<Rightarrow> Inl e
      | Inr position_embeddings \<Rightarrow>
     (case tensor_add token_embeddings position_embeddings of
        Inl e \<Rightarrow> Inl e
      | Inr partial_sum \<Rightarrow>
     (case embedding (seg_embed self) segments of
        Inl e \<Rightarrow> Inl e
      | Inr segment_embeddings \<Rightarrow> tensor_add partial_sum segment_embeddings)))))"

section \<open>Shapes\<close>

text \<open>The sum of two vectors, entry by entry.\<close>

definition vec_add :: "'a::plus list \<Rightarrow> 'a list \<Rightarrow> 'a list" where
  "vec_add u v = map (\<lambda>(a, b). a + b) (zip u v)"

text \<open>
  What the two pretrained objects are relied on for. The tokenizer, asked for
  \<open>max_length = n\<close> with padding and truncation, returns at least one row and every
  row has \<open>n\<close> ids. The encoder returns one vector of the hidden width per token.
\<close>

definition fixed_length :: "nat \<Rightarrow> int list list \<Rightarrow> bool" where
  "fixed_length n tokens = (tokens \<noteq> [] \<and> list_all (\<lambda>row. length row = n) tokens)"

definition one_vector_per_token :: "nat \<Rightarrow> int list list \<Rightarrow> 'a list list list \<Rightarrow> bool" where
  "one_vector_per_token width tokens t =
     (map (map length) t = map (map (\<lambda>_. width)) tokens)"

section \<open>The pretrained objects with state of their own\<close>

text \<open>
  The tokenizer and the encoder are objects of the library. Each may keep state that
  the notebook never reads or writes (a mode, the state of a random number generator
  behind dropout, caches, a record of warnings given), and a call of the object may
  read and change it. In this second model an object is its state together with what
  a call does in a state: the result, or the exception, and the state afterwards.
\<close>

record ('s, 'i, 'o) library_object =
  state :: 's
  behaviour :: "'s \<Rightarrow> 'i \<Rightarrow> (error + 'o) \<times> 's"

definition invoke ::
  "('s, 'i, 'o) library_object \<Rightarrow> 'i \<Rightarrow> (error + 'o) \<times> ('s, 'i, 'o) library_object" where
  "invoke obj arg =
     (case behaviour obj (state obj) arg of (called, s) \<Rightarrow> (called, obj\<lparr>state := s\<rparr>))"





section \<open>Stand-ins for the pretrained objects\<close>

text \<open>
  To run \<open>forward\<close> on concrete inputs the pretrained objects are replaced by small
  stand-ins. The tokenizer splits at blanks and looks each word up in a three-word
  vocabulary (the ids \<open>bert-base-uncased\<close> gives these words; anything else is the
  unknown token 100: there is no lower-casing and there are no word pieces, so it
  agrees with the pretrained tokenizer only on these three words). It puts
  \<open>[CLS] = 101\<close> in front and \<open>[SEP] = 102\<close> behind. Truncation removes words only, and
  only when enough words can be removed: with \<open>max_length > 2\<close> the words are cut to
  \<open>max_length - 2\<close>, with \<open>max_length \<le> 2\<close> nothing is removed and the row is longer
  than \<open>max_length\<close>. Rows shorter than \<open>max_length\<close> are padded with 0. Rows of
  different lengths make no tensor (\<open>ValueError\<close>), and an empty batch is refused.

  The encoder gives token \<open>t\<close> the vector \<open>t, t + 1, ..., t + width - 1\<close> and refuses
  rows of more than 512 tokens. The pretrained encoder has width 768; the width of
  the stand-in is a parameter, so that a run with a small \<open>d_model\<close> can get past the
  sum.
\<close>

fun split_words :: "string \<Rightarrow> string \<Rightarrow> string list" where
  "split_words w [] = (if w = [] then [] else [w])"
| "split_words w (c # cs) =
     (if c = CHR '' '' then (if w = [] then split_words [] cs else w # split_words [] cs)
      else split_words (w @ [c]) cs)"

definition stub_vocab :: "string \<Rightarrow> int" where
  "stub_vocab w =
     (if w = ''the'' then 1996 else if w = ''cat'' then 4937
      else if w = ''sat'' then 2938 else 100)"

definition stub_encode :: "nat \<Rightarrow> string \<Rightarrow> int list" where
  "stub_encode n s =
     (let words = map stub_vocab (split_words [] s);
          words = (if 2 < n then take (n - 2) words else words);
          ids = [101] @ words @ [102]
      in ids @ replicate (n - length ids) 0)"

definition stub_tokenizer :: "string list \<Rightarrow> nat \<Rightarrow> error + int list list" where
  "stub_tokenizer x n =
     (if x = [] then Inl ValueError
      else (let rows = map (stub_encode n) x
            in if list_all (\<lambda>row. length row = length (hd rows)) rows then Inr rows
               else Inl ValueError))"

definition stub_model :: "nat \<Rightarrow> int list list \<Rightarrow> error + int list list list" where
  "stub_model width tokens =
     (if list_all (\<lambda>row. length row \<le> 512) tokens
      then Inr (map (map (\<lambda>t. map (\<lambda>k. t + int k) [0..<width])) tokens)
      else Inl RuntimeError)"

definition stub_resources :: "nat \<Rightarrow> int resources" where
  "stub_resources width =
     \<lparr>pretrained_tokenizer = stub_tokenizer,
      pretrained_model = stub_model width,
      pos_weight = (\<lambda>i k. 1000 * int i + 100 * int k),
      seg_weight = (\<lambda>i k. 7 + int i + 10 * int k),
      norm_transform = (\<lambda>v k. v ! k + sum_list v)\<rparr>"





section \<open>The structure of forward\<close>

lemma forward_by_parts:
  "fst (forward x self) =
     (case forward_ids x self of
        Inl e \<Rightarrow> Inl e
      | Inr ids \<Rightarrow>
     (case forward_sum self ids of
        Inl e \<Rightarrow> Inl e
      | Inr embedding_sum \<Rightarrow> layer_norm (norm self) embedding_sum))"
  by (simp add: forward_def forward_ids_def forward_sum_def Let_def split: sum.splits)

lemma forward_ids_tokens:
  assumes "forward_ids x self = Inr (tokens, pos, segments)"
  shows "tokenizer self x (d_model self) = Inr tokens"
    and "\<exists>seq_len. size_1 tokens = Inr seq_len \<and> pos = replicate (length tokens) (arange seq_len)"
    and "segments = zeros_like tokens"
  using assms
  by (auto simp: forward_ids_def expand_as_def unsqueeze_0_def split: sum.splits)

section \<open>Library operations: which exception, and the result on matching shapes\<close>

lemma collect_map_Inr:
  "(\<And>x. x \<in> set xs \<Longrightarrow> f x = Inr (g x)) \<Longrightarrow> collect (map f xs) = Inr (map g xs)"
  by (induction xs) auto

lemma collect_Inl: "collect rs = Inl e \<Longrightarrow> Inl e \<in> set rs"
  by (induction rs arbitrary: e) (auto split: sum.splits)

lemma broadcast_Inl:
  "broadcast f xs ys = Inl e \<Longrightarrow> e = RuntimeError \<or> (\<exists>x y. f x y = Inl e)"
  unfolding broadcast_def
  by (auto split: if_splits dest!: collect_Inl) metis+

lemma tensor_add_Inl: "tensor_add t u = Inl e \<Longrightarrow> e = RuntimeError"
  unfolding tensor_add_def
  by (auto dest!: broadcast_Inl)

lemma layer_norm_Inl: "layer_norm ln t = Inl e \<Longrightarrow> e = RuntimeError"
  by (simp add: layer_norm_def split: if_splits)

lemma broadcast_same_length:
  assumes "length xs = length ys"
    and "\<And>x y. (x, y) \<in> set (zip xs ys) \<Longrightarrow> f x y = Inr (g x y)"
  shows "broadcast f xs ys = Inr (map (\<lambda>(x, y). g x y) (zip xs ys))"
proof -
  have "collect (map (\<lambda>(x, y). f x y) (zip xs ys)) = Inr (map (\<lambda>(x, y). g x y) (zip xs ys))"
    by (rule collect_map_Inr) (use assms(2) in auto)
  with assms(1) show ?thesis by (simp add: broadcast_def)
qed

lemma zip_map_length:
  assumes "map f xs = map g ys" and "(x, y) \<in> set (zip xs ys)"
  shows "f x = g y"
proof -
  from assms(2) obtain i where i: "i < length xs" "i < length ys" "xs ! i = x" "ys ! i = y"
    by (auto simp: in_set_zip)
  from assms(1) have "map f xs ! i = map g ys ! i" by simp
  with i show ?thesis by simp
qed

lemma length_vec_add [simp]: "length (vec_add u v) = min (length u) (length v)"
  by (simp add: vec_add_def)

lemma tensor_add_same_shape:
  assumes "map (map length) t = map (map length) u"
  shows "tensor_add t u = Inr (map (\<lambda>(r, s). map (\<lambda>(a, b). vec_add a b) (zip r s)) (zip t u))"
  unfolding tensor_add_def
proof (rule broadcast_same_length)
  from assms show "length t = length u" by (rule map_eq_imp_length_eq)
next
  fix r s assume rs: "(r, s) \<in> set (zip t u)"
  with assms have shape: "map length r = map length s" by (rule zip_map_length)
  show "broadcast (broadcast (\<lambda>a b. Inr (a + b))) r s = Inr (map (\<lambda>(a, b). vec_add a b) (zip r s))"
  proof (rule broadcast_same_length)
    from shape show "length r = length s" by (rule map_eq_imp_length_eq)
  next
    fix a b assume "(a, b) \<in> set (zip r s)"
    with shape have "length a = length b" by (rule zip_map_length)
    then show "broadcast (\<lambda>a b. Inr (a + b)) a b = Inr (vec_add a b)"
      unfolding vec_add_def by (rule broadcast_same_length) simp
  qed
qed

lemma length_nn_Embedding [simp]: "length (nn_Embedding w n d) = n"
  by (simp add: nn_Embedding_def)

lemma nth_nn_Embedding [simp]: "i < n \<Longrightarrow> nn_Embedding w n d ! i = map (w i) [0..<d]"
  by (simp add: nn_Embedding_def)

lemma arange_in_range: "list_all (\<lambda>i. 0 \<le> i \<and> i < int m) (arange n) = (n \<le> m)"
proof
  assume a: "list_all (\<lambda>i. 0 \<le> i \<and> i < int m) (arange n)"
  show "n \<le> m"
  proof (rule ccontr)
    assume "\<not> n \<le> m"
    then have "int m \<in> set (arange n)" by (auto simp: arange_def)
    with a show False by (auto simp: list_all_iff)
  qed
next
  assume "n \<le> m" then show "list_all (\<lambda>i. 0 \<le> i \<and> i < int m) (arange n)"
    by (auto simp: list_all_iff arange_def)
qed

lemma position_lookup:
  assumes "0 < b"
  shows "embedding (nn_Embedding w maxlen d) (replicate b (arange n)) =
         (if n \<le> maxlen
          then Inr (replicate b (map (\<lambda>i. nn_Embedding w maxlen d ! i) [0..<n]))
          else if maxlen = 0 then Inl RuntimeError
          else Inl IndexError)"
proof -
  have "list_all (list_all (\<lambda>i. 0 \<le> i \<and> i < int maxlen)) (replicate b (arange n)) = (n \<le> maxlen)"
    using assms by (auto simp: list_all_iff arange_in_range [symmetric])
  moreover have "(nn_Embedding w maxlen d = []) = (maxlen = 0)"
    by (simp add: nn_Embedding_def)
  ultimately show ?thesis
    by (simp add: embedding_def arange_def comp_def)
qed

lemma segment_lookup:
  "embedding (nn_Embedding w 2 d) (zeros_like tokens) =
   Inr (map (map (\<lambda>_. nn_Embedding w 2 d ! 0)) tokens)"
  by (simp add: embedding_def zeros_like_def list_all_iff comp_def)

section \<open>A run of forward on a module built by the constructor\<close>

text \<open>
  The tokenizer is handed \<open>max_length = d_model\<close>. When it keeps to that length the
  sequence length of the run is \<open>d_model\<close> and the position ids are
  \<open>0, ..., d_model - 1\<close>, looked up in a table of \<open>maxlen\<close> rows.
\<close>

lemma size_1_fixed_length: "fixed_length n tokens \<Longrightarrow> size_1 tokens = Inr n"
  by (cases tokens) (simp_all add: fixed_length_def size_1_def)

lemma forward_ids_fixed_length:
  assumes "tokenizer self x (d_model self) = Inr tokens"
    and "fixed_length (d_model self) tokens"
  shows "forward_ids x self =
         Inr (tokens, replicate (length tokens) (arange (d_model self)), zeros_like tokens)"
  using assms
  by (simp add: forward_ids_def size_1_fixed_length expand_as_def unsqueeze_0_def)

lemma one_vector_per_token_lengths:
  assumes fixed: "fixed_length dm tokens"
    and shape: "one_vector_per_token dm tokens te"
  shows "length te = length tokens"
    and "b < length tokens \<Longrightarrow> length (te ! b) = dm"
    and "b < length tokens \<Longrightarrow> i < dm \<Longrightarrow> length (te ! b ! i) = dm"
proof -
  from shape have eq: "map (map length) te = map (map (\<lambda>_. dm)) tokens"
    by (simp add: one_vector_per_token_def)
  then have "length (map (map length) te) = length (map (map (\<lambda>_. dm)) tokens)"
    by simp
  then show len: "length te = length tokens" by simp
  {
    assume b: "b < length tokens"
    from fixed b have tok: "length (tokens ! b) = dm"
      by (simp add: fixed_length_def list_all_iff)
    from eq have "map (map length) te ! b = map (map (\<lambda>_. dm)) tokens ! b" by simp
    with b len have row: "map length (te ! b) = map (\<lambda>_. dm) (tokens ! b)" by simp
    then have "length (map length (te ! b)) = length (map (\<lambda>_. dm) (tokens ! b))"
      by simp
    with tok show row_len: "length (te ! b) = dm" by simp
    assume i: "i < dm"
    from row have "map length (te ! b) ! i = map (\<lambda>_. dm) (tokens ! b) ! i" by simp
    with i tok row_len show "length (te ! b ! i) = dm" by simp
  }
qed

lemma forward_sum_Embedding_init:
  assumes fixed: "fixed_length dm tokens"
    and enc: "pretrained_model res tokens = Inr te"
    and shape: "one_vector_per_token dm tokens te"
    and le: "dm \<le> maxlen"
  shows "forward_sum (Embedding_init res v maxlen dm)
           (tokens, replicate (length tokens) (arange dm), zeros_like tokens) =
         Inr (map (\<lambda>b. map (\<lambda>i.
                vec_add (vec_add (te ! b ! i) (pos_embed (Embedding_init res v maxlen dm) ! i))
                        (seg_embed (Embedding_init res v maxlen dm) ! 0))
              [0..<dm]) [0..<length tokens])"
proof -
  let ?self = "Embedding_init res v maxlen dm"
  let ?P = "pos_embed ?self" and ?S = "seg_embed ?self"
  let ?B = "length tokens"
  have P: "?P = nn_Embedding (pos_weight res) maxlen dm"
    and S: "?S = nn_Embedding (seg_weight res) 2 dm"
    and M: "bert_model ?self = pretrained_model res"
    by (simp_all add: Embedding_init_def)
  from fixed have B: "0 < ?B" by (auto simp: fixed_length_def)
  note len_te = one_vector_per_token_lengths(1) [OF fixed shape]
  note te_len = one_vector_per_token_lengths(2) [OF fixed shape]
  note te_nth = one_vector_per_token_lengths(3) [OF fixed shape]
  let ?pe = "replicate ?B (map (\<lambda>i. ?P ! i) [0..<dm])"
  have pe: "embedding ?P (replicate ?B (arange dm)) = Inr ?pe"
    using position_lookup [OF B, of "pos_weight res" maxlen dm dm] le by (simp add: P)
  have pe_shape: "map (map length) te = map (map length) ?pe"
    using le len_te te_len te_nth by (auto simp: P intro!: nth_equalityI)
  let ?ps = "map (\<lambda>(r, s). map (\<lambda>(a, b). vec_add a b) (zip r s)) (zip te ?pe)"
  have ps: "tensor_add te ?pe = Inr ?ps"
    using pe_shape by (rule tensor_add_same_shape)
  let ?se = "map (map (\<lambda>_. ?S ! 0)) tokens"
  have se: "embedding ?S (zeros_like tokens) = Inr ?se"
    by (simp add: S segment_lookup)
  have tok_nth: "length (tokens ! b) = dm" if "b < ?B" for b
    using fixed that by (auto simp: fixed_length_def list_all_iff)
  have ps_eq: "?ps = map (\<lambda>b. map (\<lambda>i. vec_add (te ! b ! i) (?P ! i)) [0..<dm]) [0..<?B]"
    using len_te te_len by (auto intro!: nth_equalityI)
  have ps_shape: "map (map length) ?ps = map (map length) ?se"
    unfolding ps_eq using le te_nth tok_nth
    by (auto simp: P S intro!: nth_equalityI)
  have sum: "tensor_add ?ps ?se =
      Inr (map (\<lambda>(r, s). map (\<lambda>(a, b). vec_add a b) (zip r s)) (zip ?ps ?se))"
    using ps_shape by (rule tensor_add_same_shape)
  have sum_eq: "map (\<lambda>(r, s). map (\<lambda>(a, b). vec_add a b) (zip r s)) (zip ?ps ?se) =
      map (\<lambda>b. map (\<lambda>i. vec_add (vec_add (te ! b ! i) (?P ! i)) (?S ! 0)) [0..<dm]) [0..<?B]"
    unfolding ps_eq using tok_nth by (auto intro!: nth_equalityI)
  show ?thesis
    unfolding forward_sum_def using enc pe ps se sum sum_eq
    by (simp add: M del: map_map)
qed

lemma forward_Embedding_init:
  assumes tok: "pretrained_tokenizer res x dm = Inr tokens"
    and fixed: "fixed_length dm tokens"
    and enc: "pretrained_model res tokens = Inr te"
    and shape: "one_vector_per_token dm tokens te"
  shows "fst (forward x (Embedding_init res v maxlen dm)) =
         (if dm \<le> maxlen
          then Inr (map (\<lambda>b. map (\<lambda>i. normalize (norm (Embedding_init res v maxlen dm))
                  (vec_add (vec_add (te ! b ! i) (pos_embed (Embedding_init res v maxlen dm) ! i))
                           (seg_embed (Embedding_init res v maxlen dm) ! 0)))
                [0..<dm]) [0..<length tokens])
          else if maxlen = 0 then Inl RuntimeError
          else Inl IndexError)"
proof -
  let ?self = "Embedding_init res v maxlen dm"
  have fields: "tokenizer ?self = pretrained_tokenizer res" "d_model ?self = dm"
    "bert_model ?self = pretrained_model res"
    "pos_embed ?self = nn_Embedding (pos_weight res) maxlen dm"
    "seg_embed ?self = nn_Embedding (seg_weight res) 2 dm"
    "normalized_shape (norm ?self) = dm"
    by (simp_all add: Embedding_init_def nn_LayerNorm_def)
  have ids: "forward_ids x ?self =
      Inr (tokens, replicate (length tokens) (arange dm), zeros_like tokens)"
    using forward_ids_fixed_length [of ?self x tokens] tok fixed by (simp add: fields)
  from fixed have B: "0 < length tokens" by (auto simp: fixed_length_def)
  show ?thesis
  proof (cases "dm \<le> maxlen")
    case True
    define E where "E = map (\<lambda>b. map (\<lambda>i.
        vec_add (vec_add (te ! b ! i) (pos_embed ?self ! i)) (seg_embed ?self ! 0))
        [0..<dm]) [0..<length tokens]"
    have sum: "forward_sum ?self
        (tokens, replicate (length tokens) (arange dm), zeros_like tokens) = Inr E"
      unfolding E_def by (rule forward_sum_Embedding_init [OF fixed enc shape True])
    note te_nth = one_vector_per_token_lengths(3) [OF fixed shape]
    have "length (pos_embed ?self ! i) = dm" if "i < dm" for i
      using that True by (simp add: fields(4))
    moreover have "length (seg_embed ?self ! 0) = dm"
      by (simp add: fields(5))
    ultimately have widths:
      "length (vec_add (vec_add (te ! b ! i) (pos_embed ?self ! i)) (seg_embed ?self ! 0)) = dm"
      if "b < length tokens" "i < dm" for b i
      using that te_nth by simp
    have "list_all (list_all (\<lambda>v. length v = normalized_shape (norm ?self))) E"
      unfolding E_def fields(6) list_all_iff using widths by auto
    then have "layer_norm (norm ?self) E = Inr (map (map (normalize (norm ?self))) E)"
      by (simp add: layer_norm_def)
    moreover have "map (map (normalize (norm ?self))) E =
        map (\<lambda>b. map (\<lambda>i. normalize (norm ?self)
          (vec_add (vec_add (te ! b ! i) (pos_embed ?self ! i)) (seg_embed ?self ! 0)))
          [0..<dm]) [0..<length tokens]"
      unfolding E_def by (simp add: comp_def)
    ultimately show ?thesis
      unfolding forward_by_parts ids using sum True by simp
  next
    case False
    then have "forward_sum ?self (tokens, replicate (length tokens) (arange dm), zeros_like tokens)
        = (if maxlen = 0 then Inl RuntimeError else Inl IndexError)"
      using enc position_lookup [OF B, of "pos_weight res" maxlen dm dm]
      by (simp add: forward_sum_def fields)
    with False show ?thesis
      unfolding forward_by_parts ids by simp
  qed
qed

lemma forward_error_after_lookups:
  assumes err: "fst (forward x self) = Inl e"
    and pos: "embedding (pos_embed self) pos = Inr pe"
    and seg: "embedding (seg_embed self) segments = Inr se"
    and enc: "bert_model self tokens = Inr te"
    and ids: "forward_ids x self = Inr (tokens, pos, segments)"
  shows "e = RuntimeError"
proof (cases "tensor_add te pe")
  case (Inl e1)
  with err ids enc pos have "e = e1"
    by (simp add: forward_by_parts forward_sum_def)
  with Inl show ?thesis by (simp add: tensor_add_Inl)
next
  case ps: (Inr partial_sum)
  show ?thesis
  proof (cases "tensor_add partial_sum se")
    case (Inl e2)
    with err ids enc pos seg ps have "e = e2"
      by (simp add: forward_by_parts forward_sum_def)
    with Inl show ?thesis by (simp add: tensor_add_Inl)
  next
    case (Inr embedding_sum)
    with err ids enc pos seg ps have "layer_norm (norm self) embedding_sum = Inl e"
      by (simp add: forward_by_parts forward_sum_def)
    then show ?thesis by (rule layer_norm_Inl)
  qed
qed

lemma forward_no_index_error:
  assumes ids: "forward_ids x (Embedding_init res v maxlen dm) = Inr (tokens, pos, segments)"
    and enc: "pretrained_model res tokens = Inr te"
    and pos: "embedding (pos_embed (Embedding_init res v maxlen dm)) pos = Inr pe"
  shows "fst (forward x (Embedding_init res v maxlen dm)) \<noteq> Inl IndexError"
proof
  let ?self = "Embedding_init res v maxlen dm"
  assume "fst (forward x ?self) = Inl IndexError"
  moreover note pos
  moreover have "embedding (seg_embed ?self) segments =
      Inr (map (map (\<lambda>_. seg_embed ?self ! 0)) tokens)"
    unfolding forward_ids_tokens(3) [OF ids]
    by (simp add: Embedding_init_def segment_lookup)
  moreover from enc have "bert_model ?self tokens = Inr te"
    by (simp add: Embedding_init_def)
  ultimately have "IndexError = RuntimeError"
    using ids by (rule forward_error_after_lookups)
  then show False by simp
qed

text \<open>
  The shape of the result: one vector of width \<open>d_model\<close> for each of the \<open>d_model\<close>
  positions of each sequence.
\<close>

lemma length_normalize [simp]: "length (normalize ln v) = length v"
  by (simp add: normalize_def)

lemma forward_output_shape:
  assumes tok: "pretrained_tokenizer res x dm = Inr tokens"
    and fixed: "fixed_length dm tokens"
    and enc: "pretrained_model res tokens = Inr te"
    and shape: "one_vector_per_token dm tokens te"
    and le: "dm \<le> maxlen"
  shows "\<exists>out. fst (forward x (Embedding_init res v maxlen dm)) = Inr out \<and>
           map (map length) out = replicate (length tokens) (replicate dm dm)"
proof -
  let ?self = "Embedding_init res v maxlen dm"
  note te_nth = one_vector_per_token_lengths(3) [OF fixed shape]
  have "length (pos_embed ?self ! i) = dm" if "i < dm" for i
    using that le by (simp add: Embedding_init_def)
  moreover have "length (seg_embed ?self ! 0) = dm"
    by (simp add: Embedding_init_def)
  ultimately have widths:
    "length (vec_add (vec_add (te ! b ! i) (pos_embed ?self ! i)) (seg_embed ?self ! 0)) = dm"
    if "b < length tokens" "i < dm" for b i
    using that te_nth by simp
  have "map (map length)
      (map (\<lambda>b. map (\<lambda>i. normalize (norm ?self)
          (vec_add (vec_add (te ! b ! i) (pos_embed ?self ! i)) (seg_embed ?self ! 0)))
        [0..<dm]) [0..<length tokens]) = replicate (length tokens) (replicate dm dm)"
    using widths by (auto intro!: nth_equalityI)
  with forward_Embedding_init [OF tok fixed enc shape, of v maxlen] le
  show ?thesis by simp
qed

section \<open>Runs with the stand-ins\<close>

text \<open>
  The constructor keeps nothing of \<open>vocab_size\<close>; the runs below use this to put the
  number aside before they are evaluated.
\<close>

lemma Embedding_init_any_vocab:
  "Embedding_init res vocab_size maxlen dm = Embedding_init res 0 maxlen dm"
  by (simp add: Embedding_init_def)

lemma stub_tokenizer_example:
  "stub_tokenizer [''the cat sat''] 4 = Inr [[101, 1996, 4937, 102]]"
  by code_simp

lemma stub_model_example:
  "stub_model 4 [[101, 1996, 4937, 102]] =
   Inr [[[101, 102, 103, 104], [1996, 1997, 1998, 1999],
         [4937, 4938, 4939, 4940], [102, 103, 104, 105]]]"
  by code_simp

lemma stub_ids_example:
  "forward_ids [''the cat sat''] (Embedding_init (stub_resources w) v maxlen 4) =
   Inr ([[101, 1996, 4937, 102]], [[0, 1, 2, 3]], [[0, 0, 0, 0]])"
proof -
  let ?self = "Embedding_init (stub_resources w) v maxlen 4 :: int Embedding"
  have tok: "tokenizer ?self [''the cat sat''] (d_model ?self) = Inr [[101, 1996, 4937, 102]]"
    by (simp add: Embedding_init_def stub_resources_def stub_tokenizer_example)
  have fixed: "fixed_length (d_model ?self) [[101, 1996, 4937, 102]]"
    by (simp add: Embedding_init_def fixed_length_def)
  have pos: "arange 4 = [0, 1, 2, 3]"
    by code_simp
  from forward_ids_fixed_length [OF tok fixed] show ?thesis
    by (simp add: Embedding_init_def pos zeros_like_def)
qed

lemma stub_ids_short:
  "forward_ids [''cat''] (Embedding_init (stub_resources 1) 30522 1 1) =
   Inr ([[101, 4937, 102]], [[0, 1, 2]], [[0, 0, 0]])"
  unfolding Embedding_init_any_vocab [of _ 30522] by code_simp

lemma stub_model_short:
  "pretrained_model (stub_resources 1) [[101, 4937, 102]] = Inr [[[101], [4937], [102]]]"
  by code_simp

lemma stub_ids_batch:
  "forward_ids [''cat'', ''the cat sat''] (Embedding_init (stub_resources 4) 30522 5 4) =
   Inr ([[101, 4937, 102, 0], [101, 1996, 4937, 102]],
        [[0, 1, 2, 3], [0, 1, 2, 3]], [[0, 0, 0, 0], [0, 0, 0, 0]])"
  unfolding Embedding_init_any_vocab [of _ 30522] by code_simp

section \<open>Sequence length and output shape\<close>

text \<open>
  C1. The claim: every token-id sequence is padded or truncated to exactly \<open>maxlen\<close>
  ids. The method passes \<open>max_length=self.d_model\<close>, so the length is \<open>d_model\<close>:
  with \<open>maxlen = 5\<close> and \<open>d_model = 4\<close> the short sequence \<open>cat\<close> is padded to four
  ids and the long sequence \<open>the cat sat the cat\<close> is truncated to four ids, not five.
\<close>

theorem tokens_have_d_model_length:
  "forward_ids [''cat'', ''the cat sat the cat''] (Embedding_init (stub_resources 4) 30522 5 4) =
     Inr ([[101, 4937, 102, 0], [101, 1996, 4937, 102]],
          [[0, 1, 2, 3], [0, 1, 2, 3]], [[0, 0, 0, 0], [0, 0, 0, 0]])"
  unfolding Embedding_init_any_vocab [of _ 30522] by code_simp

text \<open>
  C2. The claim's example: the batch \<open>["the cat sat"]\<close> with \<open>maxlen = 5\<close> and
  \<open>d_model = 4\<close> should give five token ids, position ids \<open>[0,1,2,3,4]\<close>, segment
  ids \<open>[0,0,0,0,0]\<close> and an output of shape \<open>[1,5,4]\<close>. The method gives four token
  ids, position ids \<open>[0,1,2,3]\<close> and segment ids \<open>[0,0,0,0]\<close>. With an encoder of
  hidden width four the output has shape \<open>[1,4,4]\<close>; with an encoder of hidden width
  768, as the pretrained one, the first sum raises \<open>RuntimeError\<close> and there is no
  output.
\<close>

theorem example_scenario:
  "forward_ids [''the cat sat''] (Embedding_init (stub_resources 4) 30522 5 4) =
     Inr ([[101, 1996, 4937, 102]], [[0, 1, 2, 3]], [[0, 0, 0, 0]]) \<and>
   map_sum id (map (map length))
     (fst (forward [''the cat sat''] (Embedding_init (stub_resources 4) 30522 5 4))) =
     Inr [[4, 4, 4, 4]] \<and>
   forward_ids [''the cat sat''] (Embedding_init (stub_resources 768) 30522 5 4) =
     Inr ([[101, 1996, 4937, 102]], [[0, 1, 2, 3]], [[0, 0, 0, 0]]) \<and>
   fst (forward [''the cat sat''] (Embedding_init (stub_resources 768) 30522 5 4)) =
     Inl RuntimeError"
  unfolding Embedding_init_any_vocab [of _ 30522] by code_simp

section \<open>The position lookup\<close>

text \<open>
  C3. The claim: every position index looked up is a row number of the position
  table, and the lookup never raises when \<open>d_model \<le> maxlen\<close>. With
  \<open>maxlen = d_model = 1\<close> the tokenizer, which removes words only and cannot get the
  batch \<open>["cat"]\<close> down to one id, returns three ids; the positions are \<open>[0,1,2]\<close>,
  the table has one row, and the lookup and \<open>forward\<close> raise \<open>IndexError\<close>.
\<close>

theorem index_error_within_maxlen:
  "forward_ids [''cat''] (Embedding_init (stub_resources 1) 30522 1 1) =
     Inr ([[101, 4937, 102]], [[0, 1, 2]], [[0, 0, 0]]) \<and>
   embedding (pos_embed (Embedding_init (stub_resources 1) 30522 1 1)) [[0, 1, 2]] =
     Inl IndexError \<and>
   fst (forward [''cat''] (Embedding_init (stub_resources 1) 30522 1 1)) = Inl IndexError"
  unfolding Embedding_init_any_vocab [of _ 30522] by code_simp

text \<open>
  C3, amended. In every run in which the tokenizer returns a batch with at least one
  row, the position ids of every sequence are \<open>0, ..., seq_len - 1\<close> with
  \<open>seq_len = tokens.size(1)\<close>, and the position table has \<open>maxlen\<close> rows. All of them
  are row numbers of the table exactly when \<open>seq_len \<le> maxlen\<close>. For a table with at
  least one row the position lookup raises \<open>IndexError\<close> exactly when
  \<open>seq_len > maxlen\<close>, and when the encoder returns, \<open>forward\<close> itself raises
  \<open>IndexError\<close> exactly when \<open>seq_len > maxlen\<close>.
\<close>

theorem position_lookup_by_length:
  assumes ids: "forward_ids x (Embedding_init res v maxlen dm) = Inr (tokens, pos, segments)"
    and rows: "0 < maxlen"
  shows "\<exists>seq_len. size_1 tokens = Inr seq_len
       \<and> length (pos_embed (Embedding_init res v maxlen dm)) = maxlen
       \<and> pos = replicate (length tokens) (map int [0..<seq_len])
       \<and> list_all (list_all (\<lambda>i. 0 \<le> i \<and> i < int maxlen)) pos = (seq_len \<le> maxlen)
       \<and> (embedding (pos_embed (Embedding_init res v maxlen dm)) pos = Inl IndexError) =
           (maxlen < seq_len)
       \<and> (\<forall>te. pretrained_model res tokens = Inr te \<longrightarrow>
            (fst (forward x (Embedding_init res v maxlen dm)) = Inl IndexError) =
            (maxlen < seq_len))"
proof -
  let ?self = "Embedding_init res v maxlen dm"
  have fields: "bert_model ?self = pretrained_model res"
    "pos_embed ?self = nn_Embedding (pos_weight res) maxlen dm"
    by (simp_all add: Embedding_init_def)
  from forward_ids_tokens(2) [OF ids] obtain seq_len
    where n: "size_1 tokens = Inr seq_len"
      and pos: "pos = replicate (length tokens) (arange seq_len)"
    by blast
  from n have B: "0 < length tokens"
    by (cases tokens) (simp_all add: size_1_def)
  have lookup: "embedding (pos_embed ?self) pos =
      (if seq_len \<le> maxlen
       then Inr (replicate (length tokens) (map (\<lambda>i. pos_embed ?self ! i) [0..<seq_len]))
       else Inl IndexError)"
    unfolding pos fields using position_lookup [OF B, of "pos_weight res" maxlen dm seq_len] rows
    by simp
  then have first: "(embedding (pos_embed ?self) pos = Inl IndexError) = (maxlen < seq_len)"
    by auto
  have second: "(fst (forward x ?self) = Inl IndexError) = (maxlen < seq_len)"
    if enc: "pretrained_model res tokens = Inr te" for te
  proof (cases "seq_len \<le> maxlen")
    case True
    with lookup have "embedding (pos_embed ?self) pos =
        Inr (replicate (length tokens) (map (\<lambda>i. pos_embed ?self ! i) [0..<seq_len]))"
      by simp
    with ids enc have "fst (forward x ?self) \<noteq> Inl IndexError"
      by (rule forward_no_index_error)
    with True show ?thesis by simp
  next
    case False
    with enc lookup have "fst (forward x ?self) = Inl IndexError"
      unfolding forward_by_parts ids by (simp add: forward_sum_def fields(1))
    with False show ?thesis by simp
  qed
  have table: "length (pos_embed ?self) = maxlen"
    by (simp add: fields)
  have ids_eq: "pos = replicate (length tokens) (map int [0..<seq_len])"
    by (simp add: pos arange_def)
  have valid: "list_all (list_all (\<lambda>i. 0 \<le> i \<and> i < int maxlen)) pos = (seq_len \<le> maxlen)"
    unfolding pos using B by (auto simp: list_all_iff arange_in_range [symmetric])
  from second have "\<forall>te. pretrained_model res tokens = Inr te \<longrightarrow>
      (fst (forward x ?self) = Inl IndexError) = (maxlen < seq_len)" by blast
  with n table ids_eq valid first show ?thesis by blast
qed

text \<open>
  The same for the batch \<open>["cat"]\<close> with \<open>maxlen = d_model = 1\<close>, where three
  positions meet one row and the lookup raises, and for the batch
  \<open>["the cat sat"]\<close> with \<open>maxlen = 5\<close> and \<open>d_model = 4\<close>, where four positions meet
  five rows and it does not.
\<close>

theorem position_lookup_by_length_witness:
  "forward_ids [''cat''] (Embedding_init (stub_resources 1) 30522 1 1) =
     Inr ([[101, 4937, 102]], [[0, 1, 2]], [[0, 0, 0]]) \<and>
   (0 :: nat) < 1 \<and>
   size_1 [[101, 4937, 102 :: int]] = Inr 3 \<and>
   embedding (pos_embed (Embedding_init (stub_resources 1) 30522 1 1)) [[0, 1, 2]] =
     Inl IndexError \<and>
   fst (forward [''cat''] (Embedding_init (stub_resources 1) 30522 1 1)) = Inl IndexError \<and>
   forward_ids [''the cat sat''] (Embedding_init (stub_resources 4) 30522 5 4) =
     Inr ([[101, 1996, 4937, 102]], [[0, 1, 2, 3]], [[0, 0, 0, 0]]) \<and>
   (0 :: nat) < 5 \<and>
   size_1 [[101, 1996, 4937, 102 :: int]] = Inr 4 \<and>
   embedding (pos_embed (Embedding_init (stub_resources 4) 30522 5 4)) [[0, 1, 2, 3]] \<noteq>
     Inl IndexError \<and>
   fst (forward [''the cat sat''] (Embedding_init (stub_resources 4) 30522 5 4)) \<noteq>
     Inl IndexError"
proof -
  have one: "(0 :: nat) < 1" and five: "(0 :: nat) < 5"
    by simp_all
  have n3: "size_1 [[101, 4937, 102 :: int]] = Inr 3"
    and n4: "size_1 [[101, 1996, 4937, 102 :: int]] = Inr 4"
    by (simp_all add: size_1_def)
  have enc4: "pretrained_model (stub_resources 4) [[101, 1996, 4937, 102]] =
      Inr [[[101, 102, 103, 104], [1996, 1997, 1998, 1999],
            [4937, 4938, 4939, 4940], [102, 103, 104, 105]]]"
    by (simp add: stub_resources_def stub_model_example)
  from position_lookup_by_length [OF stub_ids_short one] obtain k
    where k: "size_1 [[101, 4937, 102 :: int]] = Inr k"
      and short: "(embedding (pos_embed (Embedding_init (stub_resources 1) 30522 1 1))
          [[0, 1, 2]] = Inl IndexError) = (1 < k)"
        "\<forall>te. pretrained_model (stub_resources 1) [[101, 4937, 102]] = Inr te \<longrightarrow>
          (fst (forward [''cat''] (Embedding_init (stub_resources 1) 30522 1 1)) =
           Inl IndexError) = (1 < k)"
    by blast
  from k n3 have k3: "k = 3" by simp
  have lt: "(1 :: nat) < 3"
    by simp
  have s1: "embedding (pos_embed (Embedding_init (stub_resources 1) 30522 1 1))
      [[0, 1, 2]] = Inl IndexError"
    using short(1) [unfolded k3] lt by (rule iffD2)
  have s2: "fst (forward [''cat''] (Embedding_init (stub_resources 1) 30522 1 1)) =
      Inl IndexError"
    using short(2) [unfolded k3, THEN spec, THEN mp, OF stub_model_short] lt by (rule iffD2)
  from position_lookup_by_length [OF stub_ids_example five, of 4 30522] obtain m
    where m: "size_1 [[101, 1996, 4937, 102 :: int]] = Inr m"
      and long: "(embedding (pos_embed (Embedding_init (stub_resources 4) 30522 5 4))
          [[0, 1, 2, 3]] = Inl IndexError) = (5 < m)"
        "\<forall>te. pretrained_model (stub_resources 4) [[101, 1996, 4937, 102]] = Inr te \<longrightarrow>
          (fst (forward [''the cat sat''] (Embedding_init (stub_resources 4) 30522 5 4)) =
           Inl IndexError) = (5 < m)"
    by blast
  from m n4 have m4: "m = 4" by simp
  have l1: "embedding (pos_embed (Embedding_init (stub_resources 4) 30522 5 4))
      [[0, 1, 2, 3]] \<noteq> Inl IndexError"
  proof
    assume "embedding (pos_embed (Embedding_init (stub_resources 4) 30522 5 4))
      [[0, 1, 2, 3]] = Inl IndexError"
    with long(1) [unfolded m4] have "(5 :: nat) < 4" by (rule iffD1)
    then show False by simp
  qed
  have l2: "fst (forward [''the cat sat''] (Embedding_init (stub_resources 4) 30522 5 4)) \<noteq>
      Inl IndexError"
  proof
    assume "fst (forward [''the cat sat''] (Embedding_init (stub_resources 4) 30522 5 4)) =
      Inl IndexError"
    with long(2) [unfolded m4, THEN spec, THEN mp, OF enc4] have "(5 :: nat) < 4" by (rule iffD1)
    then show False by simp
  qed
  from stub_ids_short one n3 s1 s2 stub_ids_example five n4 l1 l2
  show ?thesis by (intro conjI)
qed

section \<open>The composed embedding\<close>

text \<open>
  C4. When the tokenizer returns rows of \<open>d_model\<close> ids, the encoder returns one
  vector of width \<open>d_model\<close> per token and \<open>d_model \<le> maxlen\<close>, \<open>forward\<close> returns,
  and the vector at position \<open>i\<close> of sequence \<open>b\<close> is the normalisation of
  \<open>token_embedding + position_embedding + segment_embedding\<close> for that position:
  the encoder's vector, row \<open>i\<close> of the position table and row 0 of the segment
  table, added entry by entry from left to right.
\<close>

theorem composed_embedding:
  assumes tok: "pretrained_tokenizer res x dm = Inr tokens"
    and fixed: "fixed_length dm tokens"
    and enc: "pretrained_model res tokens = Inr te"
    and shape: "one_vector_per_token dm tokens te"
    and le: "dm \<le> maxlen"
  shows "\<exists>out. fst (forward x (Embedding_init res v maxlen dm)) = Inr out \<and>
           length out = length tokens \<and>
           (\<forall>b < length tokens. length (out ! b) = dm \<and>
              (\<forall>i < dm. out ! b ! i =
                 normalize (norm (Embedding_init res v maxlen dm))
                   (vec_add (vec_add (te ! b ! i) (pos_embed (Embedding_init res v maxlen dm) ! i))
                            (seg_embed (Embedding_init res v maxlen dm) ! 0))))"
  using forward_Embedding_init [OF tok fixed enc shape, of v maxlen] le
  by simp

text \<open>
  The same for the batch \<open>["the cat sat"]\<close> with \<open>maxlen = 5\<close> and \<open>d_model = 4\<close>.
\<close>

theorem composed_embedding_witness:
  "pretrained_tokenizer (stub_resources 4) [''the cat sat''] 4 = Inr [[101, 1996, 4937, 102]] \<and>
   fixed_length 4 [[101, 1996, 4937, 102]] \<and>
   pretrained_model (stub_resources 4) [[101, 1996, 4937, 102]] =
     Inr [[[101, 102, 103, 104], [1996, 1997, 1998, 1999],
           [4937, 4938, 4939, 4940], [102, 103, 104, 105]]] \<and>
   one_vector_per_token 4 [[101, 1996, 4937, 102]]
     [[[101, 102, 103, 104], [1996, 1997, 1998, 1999],
       [4937, 4938, 4939, 4940], [102, 103, 104, 105 :: int]]] \<and>
   (4 :: nat) \<le> 5 \<and>
   (\<exists>out. fst (forward [''the cat sat''] (Embedding_init (stub_resources 4) 30522 5 4)) =
            Inr out \<and>
      length out = length [[101, 1996, 4937, 102 :: int]] \<and>
      (\<forall>b < length [[101, 1996, 4937, 102 :: int]]. length (out ! b) = 4 \<and>
         (\<forall>i < 4. out ! b ! i =
            normalize (norm (Embedding_init (stub_resources 4) 30522 5 4))
              (vec_add
                 (vec_add
                    ([[[101, 102, 103, 104], [1996, 1997, 1998, 1999],
                       [4937, 4938, 4939, 4940], [102, 103, 104, 105]]] ! b ! i)
                    (pos_embed (Embedding_init (stub_resources 4) 30522 5 4) ! i))
                 (seg_embed (Embedding_init (stub_resources 4) 30522 5 4) ! 0)))))"
proof -
  have tok: "pretrained_tokenizer (stub_resources 4) [''the cat sat''] 4 =
      Inr [[101, 1996, 4937, 102]]"
    by (simp add: stub_resources_def stub_tokenizer_example)
  have fixed: "fixed_length 4 [[101, 1996, 4937, 102]]"
    by (simp add: fixed_length_def)
  have enc: "pretrained_model (stub_resources 4) [[101, 1996, 4937, 102]] =
      Inr [[[101, 102, 103, 104], [1996, 1997, 1998, 1999],
            [4937, 4938, 4939, 4940], [102, 103, 104, 105]]]"
    by (simp add: stub_resources_def stub_model_example)
  have shape: "one_vector_per_token 4 [[101, 1996, 4937, 102]]
      [[[101, 102, 103, 104], [1996, 1997, 1998, 1999],
        [4937, 4938, 4939, 4940], [102, 103, 104, 105 :: int]]]"
    by (simp add: one_vector_per_token_def)
  have le: "(4 :: nat) \<le> 5"
    by simp
  from tok fixed enc shape le composed_embedding [OF tok fixed enc shape le, of 30522]
  show ?thesis by (intro conjI)
qed

section \<open>Position and segment ids\<close>

text \<open>
  C5. In every run that reaches the position ids, each row of \<open>pos\<close> is
  \<open>0, ..., seq_len - 1\<close>, one row per sequence of the batch; and when the position
  lookup returns, every sequence gets the same vectors, row \<open>i\<close> of the position
  table at position \<open>i\<close>, whatever its tokens are.
\<close>

theorem position_ids_shared:
  assumes ids: "forward_ids x self = Inr (tokens, pos, segments)"
  shows "\<exists>seq_len. size_1 tokens = Inr seq_len \<and>
           pos = replicate (length tokens) (map int [0..<seq_len]) \<and>
           (\<forall>pe. embedding (pos_embed self) pos = Inr pe \<longrightarrow>
              pe = replicate (length tokens) (map (\<lambda>i. pos_embed self ! i) [0..<seq_len]))"
proof -
  from forward_ids_tokens(2) [OF ids] obtain seq_len
    where n: "size_1 tokens = Inr seq_len"
      and pos: "pos = replicate (length tokens) (map int [0..<seq_len])"
    by (auto simp: arange_def)
  have "pe = replicate (length tokens) (map (\<lambda>i. pos_embed self ! i) [0..<seq_len])"
    if "embedding (pos_embed self) pos = Inr pe" for pe
    using that unfolding pos
    by (auto simp: embedding_def comp_def split: if_splits)
  with n pos show ?thesis by blast
qed

text \<open>
  The same for the batch \<open>["cat", "the cat sat"]\<close> with \<open>maxlen = 5\<close> and
  \<open>d_model = 4\<close>: two sequences with different tokens, the same four position ids for
  both, the lookup returns, and both sequences get rows 0 to 3 of the position
  table.
\<close>

theorem position_ids_shared_witness:
  "forward_ids [''cat'', ''the cat sat''] (Embedding_init (stub_resources 4) 30522 5 4) =
     Inr ([[101, 4937, 102, 0], [101, 1996, 4937, 102]],
          [[0, 1, 2, 3], [0, 1, 2, 3]], [[0, 0, 0, 0], [0, 0, 0, 0]]) \<and>
   size_1 [[101, 4937, 102, 0], [101, 1996, 4937, 102 :: int]] = Inr 4 \<and>
   [[0, 1, 2, 3], [0, 1, 2, 3]] =
     replicate (length [[101, 4937, 102, 0], [101, 1996, 4937, 102 :: int]])
       (map int [0..<4]) \<and>
   embedding (pos_embed (Embedding_init (stub_resources 4) 30522 5 4))
     [[0, 1, 2, 3], [0, 1, 2, 3]] =
     Inr [[[0, 100, 200, 300], [1000, 1100, 1200, 1300],
           [2000, 2100, 2200, 2300], [3000, 3100, 3200, 3300]],
          [[0, 100, 200, 300], [1000, 1100, 1200, 1300],
           [2000, 2100, 2200, 2300], [3000, 3100, 3200, 3300]]] \<and>
   [[[0, 100, 200, 300], [1000, 1100, 1200, 1300],
     [2000, 2100, 2200, 2300], [3000, 3100, 3200, 3300]],
    [[0, 100, 200, 300], [1000, 1100, 1200, 1300],
     [2000, 2100, 2200, 2300], [3000, 3100, 3200, 3300]]] =
     replicate (length [[101, 4937, 102, 0], [101, 1996, 4937, 102 :: int]])
       (map (\<lambda>i. pos_embed (Embedding_init (stub_resources 4) 30522 5 4) ! i) [0..<4])"
proof -
  have n4: "size_1 [[101, 4937, 102, 0], [101, 1996, 4937, 102 :: int]] = Inr 4"
    by (simp add: size_1_def)
  have lookup: "embedding (pos_embed (Embedding_init (stub_resources 4) 30522 5 4))
      [[0, 1, 2, 3], [0, 1, 2, 3]] =
      Inr [[[0, 100, 200, 300], [1000, 1100, 1200, 1300],
            [2000, 2100, 2200, 2300], [3000, 3100, 3200, 3300]],
           [[0, 100, 200, 300], [1000, 1100, 1200, 1300],
            [2000, 2100, 2200, 2300], [3000, 3100, 3200, 3300]]]"
    unfolding Embedding_init_any_vocab [of _ 30522] by code_simp
  from position_ids_shared [OF stub_ids_batch] obtain k
    where k: "size_1 [[101, 4937, 102, 0], [101, 1996, 4937, 102 :: int]] = Inr k"
      and pos: "[[0, 1, 2, 3], [0, 1, 2, 3]] =
          replicate (length [[101, 4937, 102, 0], [101, 1996, 4937, 102 :: int]])
            (map int [0..<k])"
      and rows: "\<forall>pe. embedding (pos_embed (Embedding_init (stub_resources 4) 30522 5 4))
            [[0, 1, 2, 3], [0, 1, 2, 3]] = Inr pe \<longrightarrow>
          pe = replicate (length [[101, 4937, 102, 0], [101, 1996, 4937, 102 :: int]])
            (map (\<lambda>i. pos_embed (Embedding_init (stub_resources 4) 30522 5 4) ! i) [0..<k])"
    by blast
  from k n4 have k4: "k = 4" by simp
  note same = rows [unfolded k4, THEN spec, THEN mp, OF lookup]
  from stub_ids_batch n4 pos [unfolded k4] lookup same show ?thesis by (intro conjI)
qed

text \<open>
  C6. In every run that reaches the segment ids, each of them is zero (so 1 is
  never produced), and the segment lookup returns row 0 of the segment table at
  every position of every sequence.
\<close>

theorem segment_ids_zero:
  assumes ids: "forward_ids x (Embedding_init res v maxlen dm) = Inr (tokens, pos, segments)"
  shows "segments = map (\<lambda>row. replicate (length row) 0) tokens \<and>
         1 \<notin> set (concat segments) \<and>
         embedding (seg_embed (Embedding_init res v maxlen dm)) segments =
           Inr (map (\<lambda>row. replicate (length row) (seg_embed (Embedding_init res v maxlen dm) ! 0))
                  tokens)"
proof -
  have S: "seg_embed (Embedding_init res v maxlen dm) = nn_Embedding (seg_weight res) 2 dm"
    by (simp add: Embedding_init_def)
  from forward_ids_tokens(3) [OF ids] have segs: "segments = zeros_like tokens" .
  have "zeros_like tokens = map (\<lambda>row. replicate (length row) 0) tokens"
    by (simp add: zeros_like_def map_replicate_const)
  moreover have "1 \<notin> set (concat (zeros_like tokens))"
    by (auto simp: zeros_like_def)
  moreover have "embedding (nn_Embedding (seg_weight res) 2 dm) (zeros_like tokens) =
      Inr (map (\<lambda>row. replicate (length row) (nn_Embedding (seg_weight res) 2 dm ! 0)) tokens)"
    by (simp add: segment_lookup map_replicate_const)
  ultimately show ?thesis unfolding segs S by simp
qed

text \<open>
  The same for the batch \<open>["the cat sat"]\<close>.
\<close>

theorem segment_ids_zero_witness:
  "forward_ids [''the cat sat''] (Embedding_init (stub_resources 4) 30522 5 4) =
     Inr ([[101, 1996, 4937, 102]], [[0, 1, 2, 3]], [[0, 0, 0, 0]]) \<and>
   [[0, 0, 0, 0]] = map (\<lambda>row. replicate (length row) (0 :: int)) [[101, 1996, 4937, 102 :: int]] \<and>
   1 \<notin> set (concat [[0, 0, 0, 0 :: int]]) \<and>
   embedding (seg_embed (Embedding_init (stub_resources 4) 30522 5 4)) [[0, 0, 0, 0]] =
     Inr (map (\<lambda>row. replicate (length row)
                 (seg_embed (Embedding_init (stub_resources 4) 30522 5 4) ! 0))
            [[101, 1996, 4937, 102 :: int]])"
proof -
  note ids = stub_ids_example [of 4 30522 5]
  from ids segment_ids_zero [OF ids] show ?thesis by (rule conjI)
qed

section \<open>Index errors\<close>

text \<open>
  C8. The claim: \<open>forward\<close> fails with an index-out-of-range error if and only if
  a segment id exceeds the size of the segment table, which never happens. With
  \<open>maxlen = 3\<close> and \<open>d_model = 4\<close> the batch \<open>["the cat sat"]\<close> is tokenized to
  \<open>d_model = 4\<close> ids, position 3 meets a table of three rows, and \<open>forward\<close> raises
  \<open>IndexError\<close> while every segment id is zero.
\<close>

theorem index_error_without_segment_overflow:
  "fst (forward [''the cat sat''] (Embedding_init (stub_resources 4) 30522 3 4)) =
     Inl IndexError \<and>
   forward_ids [''the cat sat''] (Embedding_init (stub_resources 4) 30522 3 4) =
     Inr ([[101, 1996, 4937, 102]], [[0, 1, 2, 3]], [[0, 0, 0, 0]])"
  unfolding Embedding_init_any_vocab [of _ 30522] by code_simp

section \<open>What a call leaves behind, and two calls in a row\<close>


lemma invoke_behaviour [simp]: "behaviour (snd (invoke obj arg)) = behaviour obj"
  by (simp add: invoke_def split: prod.splits)

lemma invoke_state: "state (snd (invoke obj arg)) = snd (behaviour obj (state obj) arg)"
  by (simp add: invoke_def split: prod.splits)












section \<open>The constructor's vocab_size\<close>

text \<open>
  C10. The \<open>vocab_size\<close> argument of the constructor is accepted and never used: two
  modules built from the same resources, \<open>maxlen\<close> and \<open>d_model\<close> with different
  \<open>vocab_size\<close> give the same result on every input.
\<close>

theorem vocab_size_unused:
  "forward x (Embedding_init res vocab_size maxlen dm) =
   forward x (Embedding_init res vocab_size' maxlen dm)"
  by (simp add: Embedding_init_def)

end
